theory Spec2Isabelle
  imports Complex_Main "HOL-Library.Word"
begin

section \<open>Admission limiter (internal/ratelimit/limiter.go)\<close>

subsection \<open>Go arithmetic used by the limiter\<close>

text \<open>
  Go's conversion \<^verbatim>\<open>int(f)\<close> of a float64 discards the fraction (truncation towards
  zero). A float64 is read as the real number it denotes; the conversion is only used on
  token counts, which lie between 0 and the burst size.
\<close>

definition go_int :: "real \<Rightarrow> int" where
  "go_int x = (if 0 \<le> x then \<lfloor>x\<rfloor> else \<lceil>x\<rceil>)"

text \<open>Go's \<^verbatim>\<open>%\<close> on integers: the remainder has the sign of the dividend.\<close>

definition go_rem :: "int \<Rightarrow> int \<Rightarrow> int" where
  "go_rem a b = sgn a * (\<bar>a\<bar> mod \<bar>b\<bar>)"

text \<open>\<^verbatim>\<open>string(rune(r))\<close> for a code point below 128: the one-byte string of that character.\<close>

definition rune_string :: "int \<Rightarrow> string" where
  "rune_string r = [char_of r]"

subsection \<open>formatTokens\<close>

text \<open>
  \<^verbatim>\<open>
  func formatTokens(tokens float64) string {
      if tokens < 0 { return "0" }
      return string(rune('0' + int(tokens)%10))
  }
  \<close>
\<close>

definition formatTokens :: "real \<Rightarrow> string" where
  "formatTokens tokens =
     (if tokens < 0 then ''0''
      else rune_string (of_char CHR ''0'' + go_rem (go_int tokens) 10))"

text \<open>
  The decimal representation of a natural number: what the specification asks of the
  header (``the remaining-token count rounded to an integer''), against which
  \<open>formatTokens\<close> is compared, and what the verb \<^verbatim>\<open>%d\<close> prints.
\<close>

fun decimal :: "nat \<Rightarrow> string" where
  "decimal n =
     (if n < 10 then [char_of (48 + n)]
      else decimal (n div 10) @ [char_of (48 + n mod 10)])"

declare decimal.simps [simp del]

subsection \<open>The token bucket\<close>

text \<open>
  Modelled from the spec: the bucket type \<^verbatim>\<open>rate.Limiter\<close> of golang.org/x/time/rate
  (\<^verbatim>\<open>NewLimiter\<close>, \<^verbatim>\<open>Allow\<close>, \<^verbatim>\<open>Tokens\<close>) is imported by limiter.go and is not part of the
  sources. The specification (sections 3 and 4.1) describes it: a bucket holds a
  floating-point token count and the time of its last refill; its capacity is the burst
  size \<open>B\<close>; it refills continuously at \<open>R\<close> tokens per second from the time elapsed since
  the last refill, capped at \<open>B\<close>; \<open>allow\<close> consumes exactly one token and returns true if
  at least one is available, and returns false and leaves the tokens unchanged otherwise.
  A bucket is created full. Time is in seconds, as a real number, and is passed in where
  the Go code reads the clock.
\<close>

record RateBucket =
  capacity :: int
  refillRate :: real
  tokens :: real
  lastRefill :: real

definition NewLimiter :: "real \<Rightarrow> int \<Rightarrow> RateBucket" where
  "NewLimiter r b = \<lparr>capacity = b, refillRate = r, tokens = of_int b, lastRefill = 0\<rparr>"

text \<open>The token count at time \<open>now\<close>: refilled for the elapsed time, capped at the capacity.\<close>

definition advance :: "real \<Rightarrow> RateBucket \<Rightarrow> real" where
  "advance now bkt =
     (let elapsed = (if now < lastRefill bkt then 0 else now - lastRefill bkt)
      in min (of_int (capacity bkt)) (tokens bkt + elapsed * refillRate bkt))"

definition Limiter_Allow :: "real \<Rightarrow> RateBucket \<Rightarrow> bool \<times> RateBucket" where
  "Limiter_Allow now bkt =
     (let tk = advance now bkt
      in if 1 \<le> tk then (True, bkt\<lparr>tokens := tk - 1, lastRefill := now\<rparr>)
         else (False, bkt))"

text \<open>The remaining-token count exposed for observability, clamped to a minimum of 0.\<close>

definition Limiter_Tokens :: "real \<Rightarrow> RateBucket \<Rightarrow> real" where
  "Limiter_Tokens now bkt = max 0 (advance now bkt)"

subsection \<open>IPRateLimiter\<close>

text \<open>
  The registry \<^verbatim>\<open>map[string]*rate.Limiter\<close> with the configured rate and burst. Every
  pointer in the map comes from its own \<^verbatim>\<open>NewLimiter\<close> call, so no two identities share a
  bucket and the map of pointers is a map to bucket values; a bucket mutated through its
  pointer is written back under its key. The locks serialise the operations and the
  model is their sequential behaviour.
\<close>

record IPRateLimiter =
  limiters :: "string \<rightharpoonup> RateBucket"
  rate :: real
  burst :: int

definition NewIPRateLimiter :: "real \<Rightarrow> int \<Rightarrow> IPRateLimiter" where
  "NewIPRateLimiter r b = \<lparr>limiters = Map.empty, rate = r, burst = b\<rparr>"

definition getLimiter :: "IPRateLimiter \<Rightarrow> string \<Rightarrow> RateBucket \<times> IPRateLimiter" where
  "getLimiter rl ip =
     (case limiters rl ip of
        Some limiter \<Rightarrow> (limiter, rl)
      | None \<Rightarrow>
          (let limiter = NewLimiter (rate rl) (burst rl)
           in (limiter, rl\<lparr>limiters := (limiters rl)(ip \<mapsto> limiter)\<rparr>)))"

definition Allow :: "IPRateLimiter \<Rightarrow> real \<Rightarrow> string \<Rightarrow> bool \<times> IPRateLimiter" where
  "Allow rl now ip =
     (let (limiter, rl1) = getLimiter rl ip;
          (ok, limiter') = Limiter_Allow now limiter
      in (ok, rl1\<lparr>limiters := (limiters rl1)(ip \<mapsto> limiter')\<rparr>))"

text \<open>
  The part of \<^verbatim>\<open>Middleware\<close> before the next handler runs: a denied request is answered
  with 429, an admitted one gets the header \<^verbatim>\<open>X-RateLimit-Remaining\<close>.
\<close>

datatype admission = RateLimited | Admitted string

definition Middleware :: "IPRateLimiter \<Rightarrow> real \<Rightarrow> string \<Rightarrow> admission \<times> IPRateLimiter" where
  "Middleware rl now ip =
     (case Allow rl now ip of
        (False, rl1) \<Rightarrow> (RateLimited, rl1)
      | (True, rl1) \<Rightarrow>
          (let (limiter, rl2) = getLimiter rl1 ip
           in (Admitted (formatTokens (Limiter_Tokens now limiter)), rl2)))"

text \<open>A bucket of capacity \<open>B\<close> and rate \<open>R\<close> holding \<open>n\<close> tokens, last refilled at time 0.\<close>

definition bucket_at :: "nat \<Rightarrow> real \<Rightarrow> nat \<Rightarrow> RateBucket" where
  "bucket_at B R n = \<lparr>capacity = int B, refillRate = R, tokens = real n, lastRefill = 0\<rparr>"

text \<open>A sequence of \<open>Allow\<close> calls by one identity at the given times, with their answers.\<close>

fun Allow_times :: "IPRateLimiter \<Rightarrow> string \<Rightarrow> real list \<Rightarrow> bool list \<times> IPRateLimiter" where
  "Allow_times rl ip [] = ([], rl)"
| "Allow_times rl ip (t # ts) =
     (let (ok, rl1) = Allow rl t ip;
          (oks, rl2) = Allow_times rl1 ip ts
      in (ok # oks, rl2))"

section \<open>URL validator and fetcher (internal/proxy/fetcher.go)\<close>

subsection \<open>Errors\<close>

text \<open>
  Go errors as values: the three sentinels of package proxy, the store's
  \<^verbatim>\<open>badger.ErrKeyNotFound\<close>, an error made by a library (its message), and the result of
  \<^verbatim>\<open>fmt.Errorf\<close> with one \<^verbatim>\<open>%w\<close> verb (the text before the wrapped error, the wrapped error,
  the text after it).
\<close>

datatype error =
    ErrInvalidURL
  | ErrInvalidScheme
  | ErrResponseTooBig
  | ErrKeyNotFound
  | LibError string
  | Errorf string error string

text \<open>\<^verbatim>\<open>err.Error()\<close>: the message.\<close>

fun Error :: "error \<Rightarrow> string" where
  "Error ErrInvalidURL = ''invalid URL''"
| "Error ErrInvalidScheme = ''URL scheme must be http or https''"
| "Error ErrResponseTooBig = ''response exceeds maximum allowed size''"
| "Error ErrKeyNotFound = ''Key not found''"
| "Error (LibError msg) = msg"
| "Error (Errorf before err after) = before @ Error err @ after"

text \<open>\<^verbatim>\<open>errors.Is(err, target)\<close>: \<open>err\<close> or an error it wraps is \<open>target\<close>.\<close>

fun errors_Is :: "error \<Rightarrow> error \<Rightarrow> bool" where
  "errors_Is (Errorf before err after) target =
     (Errorf before err after = target \<or> errors_Is err target)"
| "errors_Is err target = (err = target)"

text \<open>The verb \<^verbatim>\<open>%d\<close> on an integer.\<close>

definition format_d :: "int \<Rightarrow> string" where
  "format_d i = (if i < 0 then ''-'' @ decimal (nat (- i)) else decimal (nat i))"

subsection \<open>Library functions\<close>

text \<open>
  The fields of \<^verbatim>\<open>url.URL\<close> that the fetcher reads, an outgoing \<^verbatim>\<open>http.Request\<close>, and the
  fields of an \<^verbatim>\<open>http.Response\<close> that the fetcher and the handler read. The body of a
  response is a stream; \<open>Body\<close> is what \<^verbatim>\<open>io.ReadAll\<close> returns for it. A missing
  Content-Length is \<open>-1\<close>, as in Go. The Content-Length and the maximum size are int64
  values that the code only compares, so they are integers here. Header maps are keyed by
  the header name.
\<close>

record URL =
  Scheme :: string
  Host :: string

record Request =
  Method :: string
  RawURL :: string
  Header :: "string \<rightharpoonup> string"

record Response =
  StatusCode :: int
  ContentLength :: int
  RespHeader :: "string \<rightharpoonup> string"
  Body :: "error + string"

text \<open>\<^verbatim>\<open>Header.Get\<close>: the value, or the empty string when the header is absent.\<close>

definition Header_Get :: "(string \<rightharpoonup> string) \<Rightarrow> string \<Rightarrow> string" where
  "Header_Get h k = (case h k of None \<Rightarrow> [] | Some v \<Rightarrow> v)"

text \<open>
  The functions of Go's standard library that the sources call and whose code is outside
  the repository are parameters of the model: \<^verbatim>\<open>url.Parse\<close>, \<^verbatim>\<open>http.NewRequest\<close>,
  \<^verbatim>\<open>sha256.Sum256\<close>, \<^verbatim>\<open>json.Marshal\<close> and \<^verbatim>\<open>json.Unmarshal\<close> (on \<^verbatim>\<open>CachedResponse\<close>).
\<close>

record CachedResponse =
  Data :: string
  ContentType :: string

record stdlib =
  url_Parse :: "string \<Rightarrow> error + URL"
  http_NewRequest :: "string \<Rightarrow> string \<Rightarrow> error + Request"
  sha256_Sum256 :: "string \<Rightarrow> string"
  json_Marshal :: "CachedResponse \<Rightarrow> error + string"
  json_Unmarshal :: "string \<Rightarrow> error + CachedResponse"

subsection \<open>Fetcher\<close>

text \<open>
  The \<^verbatim>\<open>http.Client\<close> of a fetcher, with its timeout and redirect policy, is the function
  that answers a request with a response or a transport error.
\<close>

record Fetcher =
  client_Do :: "Request \<Rightarrow> error + Response"
  maxSize :: int

definition ValidateURL :: "'l stdlib_scheme \<Rightarrow> string \<Rightarrow> error option" where
  "ValidateURL lib rawURL =
     (if rawURL = [] then Some ErrInvalidURL
      else case url_Parse lib rawURL of
        Inl err \<Rightarrow> Some (Errorf [] ErrInvalidURL ('': '' @ Error err))
      | Inr parsed \<Rightarrow>
          if Scheme parsed \<noteq> ''http'' \<and> Scheme parsed \<noteq> ''https'' then Some ErrInvalidScheme
          else if Host parsed = [] then Some ErrInvalidURL
          else None)"

text \<open>
  What \<open>Fetch\<close> does to the network and to the response body is recorded as a trace, next
  to its result.
\<close>

datatype io_event = ClientDo Request | BodyReadAll | BodyClose

definition Fetch ::
  "'l stdlib_scheme \<Rightarrow> Fetcher \<Rightarrow> string \<Rightarrow> (error + Response) \<times> io_event list" where
  "Fetch lib f rawURL =
     (case ValidateURL lib rawURL of
        Some err \<Rightarrow> (Inl err, [])
      | None \<Rightarrow>
         (case http_NewRequest lib ''GET'' rawURL of
            Inl err \<Rightarrow> (Inl (Errorf ''failed to create request: '' err []), [])
          | Inr req0 \<Rightarrow>
             (let req = req0\<lparr>Header :=
                          (Header req0)(''User-Agent'' \<mapsto> ''ProxyHarold/1.0'',
                                        ''Accept'' \<mapsto> ''*/*'')\<rparr>
              in case client_Do f req of
                   Inl err \<Rightarrow> (Inl (Errorf ''failed to fetch URL: '' err []), [ClientDo req])
                 | Inr resp \<Rightarrow>
                     if ContentLength resp > maxSize f
                     then (Inl (Errorf [] ErrResponseTooBig
                                  ('': '' @ format_d (ContentLength resp) @ '' bytes (max ''
                                    @ format_d (maxSize f) @ '')'')),
                           [ClientDo req, BodyClose])
                     else (Inr resp, [ClientDo req]))))"

section \<open>Response cache (package cache, in internal/proxy/fetcher.go)\<close>

subsection \<open>The store\<close>

text \<open>
  Modelled from the spec: the embedded key-value store (Badger: \<^verbatim>\<open>db.View\<close>, \<^verbatim>\<open>db.Update\<close>,
  \<^verbatim>\<open>txn.Get\<close>, \<^verbatim>\<open>txn.SetEntry\<close>, \<^verbatim>\<open>txn.Delete\<close>, \<^verbatim>\<open>WithTTL\<close>) is imported by the cache and is
  not part of the sources. The specification (sections 3 and 4.3) describes it: a store
  of entries with a value and an absolute expiry time, written with a time-to-live;
  expiry is enforced at read time, so a lookup of a key that is absent or logically
  expired reports that the key is not found, whether or not the entry has been reclaimed;
  an operation can fail with an I/O error, which is passed to the caller. Timestamps and
  the time-to-live are in seconds; an entry is live strictly before its expiry time. The
  clock and the I/O error that an operation meets, if any, are passed in.
\<close>

record DB =
  entries :: "string \<rightharpoonup> string \<times> int"

definition db_Get :: "error option \<Rightarrow> DB \<Rightarrow> int \<Rightarrow> string \<Rightarrow> error + string" where
  "db_Get io d now key =
     (case io of
        Some err \<Rightarrow> Inl err
      | None \<Rightarrow>
         (case entries d key of
            None \<Rightarrow> Inl ErrKeyNotFound
          | Some (val, expiresAt) \<Rightarrow>
              if expiresAt \<le> now then Inl ErrKeyNotFound else Inr val))"

definition db_SetEntry ::
  "error option \<Rightarrow> DB \<Rightarrow> int \<Rightarrow> string \<Rightarrow> string \<Rightarrow> int \<Rightarrow> error option \<times> DB" where
  "db_SetEntry io d now key val ttl =
     (case io of
        Some err \<Rightarrow> (Some err, d)
      | None \<Rightarrow> (None, d\<lparr>entries := (entries d)(key \<mapsto> (val, now + ttl))\<rparr>))"


subsection \<open>BadgerCache\<close>

record BadgerCache =
  db :: DB
  ttl :: int

text \<open>\<^verbatim>\<open>hex.EncodeToString\<close>: two lower-case hexadecimal digits for each byte.\<close>

definition hex_digit :: "nat \<Rightarrow> char" where
  "hex_digit n = ''0123456789abcdef'' ! n"

definition hex_EncodeToString :: "string \<Rightarrow> string" where
  "hex_EncodeToString bs =
     concat (map (\<lambda>c. [hex_digit (of_char c div 16), hex_digit (of_char c mod 16)]) bs)"

definition GenerateCacheKey :: "'l stdlib_scheme \<Rightarrow> string \<Rightarrow> string" where
  "GenerateCacheKey lib url = hex_EncodeToString (sha256_Sum256 lib url)"

text \<open>
  \<open>Get\<close> returns \<^verbatim>\<open>(data, contentType, found, err)\<close>; a nil slice is the empty byte string
  and a nil error is \<open>None\<close>.
\<close>

definition BadgerCache_Get ::
  "'l stdlib_scheme \<Rightarrow> error option \<Rightarrow> BadgerCache \<Rightarrow> int \<Rightarrow> string
     \<Rightarrow> string \<times> string \<times> bool \<times> error option" where
  "BadgerCache_Get lib io c now url =
     (let key = GenerateCacheKey lib url;
          res = (case db_Get io (db c) now key of
                   Inl err \<Rightarrow> Inl err
                 | Inr val \<Rightarrow> json_Unmarshal lib val)
      in case res of
           Inl err \<Rightarrow>
             if err = ErrKeyNotFound then ([], [], False, None)
             else ([], [], False, Some err)
         | Inr response \<Rightarrow> (Data response, ContentType response, True, None))"

definition BadgerCache_Set ::
  "'l stdlib_scheme \<Rightarrow> error option \<Rightarrow> BadgerCache \<Rightarrow> int \<Rightarrow> string \<Rightarrow> string \<Rightarrow> string
     \<Rightarrow> error option \<times> BadgerCache" where
  "BadgerCache_Set lib io c now url data contentType =
     (let key = GenerateCacheKey lib url;
          response = \<lparr>Data = data, ContentType = contentType\<rparr>
      in case json_Marshal lib response of
           Inl err \<Rightarrow> (Some err, c)
         | Inr val \<Rightarrow>
             (let (err, d) = db_SetEntry io (db c) now key val (ttl c)
              in (err, c\<lparr>db := d\<rparr>)))"


section \<open>Request orchestrator (package handler, in internal/proxy/fetcher.go)\<close>

text \<open>
  The \<^verbatim>\<open>Cache\<close> interface that the handler is given: any implementation, with a state of
  its own that \<open>Get\<close> and \<open>Set\<close> may change.
\<close>

record 's Cache =
  Cache_Get :: "'s \<Rightarrow> string \<Rightarrow> (string \<times> string \<times> bool \<times> error option) \<times> 's"
  Cache_Set :: "'s \<Rightarrow> string \<Rightarrow> string \<Rightarrow> string \<Rightarrow> error option \<times> 's"

record 's ProxyHandler =
  cache :: "'s Cache"
  fetcher :: Fetcher

text \<open>
  The inbound request as the handler reads it (the method and the query parameter
  \<^verbatim>\<open>url\<close>, empty when absent) and the response writer: status code (200 unless set),
  headers and the body written, which is raw bytes or the JSON encoding of an
  \<^verbatim>\<open>ErrorResponse\<close>.
\<close>

record HTTPRequest =
  ReqMethod :: string
  QueryURL :: string

datatype body = NoBody | Bytes string | ErrorResponse string int

record ResponseWriter =
  Code :: int
  WHeader :: "string \<rightharpoonup> string"
  Written :: body

definition sendError :: "ResponseWriter \<Rightarrow> string \<Rightarrow> int \<Rightarrow> ResponseWriter" where
  "sendError w message code =
     w\<lparr>WHeader := (WHeader w)(''Content-Type'' \<mapsto> ''application/json''),
       Code := code,
       Written := ErrorResponse message code\<rparr>"

text \<open>The CORS headers set on every response, before anything else.\<close>

definition cors_writer :: ResponseWriter where
  "cors_writer =
     \<lparr>Code = 200,
      WHeader = [''Access-Control-Allow-Origin'' \<mapsto> ''*'',
                 ''Access-Control-Allow-Methods'' \<mapsto> ''GET, OPTIONS'',
                 ''Access-Control-Allow-Headers'' \<mapsto> ''*'',
                 ''Access-Control-Max-Age'' \<mapsto> ''86400''],
      Written = NoBody\<rparr>"

text \<open>
  The second half of \<^verbatim>\<open>ServeHTTP\<close>, from ``Fetch from upstream'' to the end: what runs
  when the cache lookup is not a hit. The result of \<open>Set\<close> is discarded.
\<close>

definition ServeHTTP_upstream ::
  "'l stdlib_scheme \<Rightarrow> 's ProxyHandler \<Rightarrow> 's \<Rightarrow> ResponseWriter \<Rightarrow> string
     \<Rightarrow> ResponseWriter \<times> 's \<times> io_event list" where
  "ServeHTTP_upstream lib h s w targetURL =
     (case Fetch lib (fetcher h) targetURL of
        (Inl err, evs) \<Rightarrow> (sendError w (''failed to fetch URL: '' @ Error err) 502, s, evs)
      | (Inr resp, evs) \<Rightarrow>
         (case Body resp of
            Inl err \<Rightarrow>
              (sendError w (''failed to read response: '' @ Error err) 502, s,
               evs @ [BodyReadAll, BodyClose])
          | Inr body \<Rightarrow>
              (let contentType0 = Header_Get (RespHeader resp) ''Content-Type'';
                   contentType = (if contentType0 = [] then ''application/octet-stream''
                                  else contentType0);
                   (_, s1) = Cache_Set (cache h) s targetURL body contentType
               in (w\<lparr>WHeader := (WHeader w)(''Content-Type'' \<mapsto> contentType,
                                               ''X-Cache'' \<mapsto> ''MISS''),
                     Written := Bytes body\<rparr>,
                   s1, evs @ [BodyReadAll, BodyClose]))))"

definition ServeHTTP ::
  "'l stdlib_scheme \<Rightarrow> 's ProxyHandler \<Rightarrow> 's \<Rightarrow> HTTPRequest
     \<Rightarrow> ResponseWriter \<times> 's \<times> io_event list" where
  "ServeHTTP lib h s r =
     (let w = cors_writer
      in if ReqMethod r = ''OPTIONS'' then (w\<lparr>Code := 204\<rparr>, s, [])
         else
          (let targetURL = QueryURL r
           in if targetURL = [] then
                (sendError w ''missing required 'url' parameter'' 400, s, [])
              else
               (case ValidateURL lib targetURL of
                  Some err \<Rightarrow> (sendError w (Error err) 400, s, [])
                | None \<Rightarrow>
                   (case Cache_Get (cache h) s targetURL of
                      ((data, contentType, found, err), s1) \<Rightarrow>
                        if err = None \<and> found then
                          (w\<lparr>WHeader := (WHeader w)(''Content-Type'' \<mapsto> contentType,
                                                      ''X-Cache'' \<mapsto> ''HIT''),
                            Written := Bytes data\<rparr>,
                           s1, [])
                        else ServeHTTP_upstream lib h s1 w targetURL))))"

text \<open>
  \<^verbatim>\<open>BadgerCache\<close> as a \<open>Cache\<close> (the assertion \<^verbatim>\<open>var _ Cache = (*cache.BadgerCache)(nil)\<close>),
  at a given time and with the I/O errors that its lookup and its store meet.
\<close>

definition BadgerCache_Cache ::
  "'l stdlib_scheme \<Rightarrow> error option \<Rightarrow> error option \<Rightarrow> int \<Rightarrow> BadgerCache Cache" where
  "BadgerCache_Cache lib io_get io_set now =
     \<lparr>Cache_Get = (\<lambda>c url. (BadgerCache_Get lib io_get c now url, c)),
      Cache_Set = (\<lambda>c url data contentType. BadgerCache_Set lib io_set c now url data contentType)\<rparr>"

section \<open>Configuration (cmd/server main)\<close>

text \<open>
  \<^verbatim>\<open>getEnvInt64\<close>, given the value of the environment variable (empty when it is unset):
  the decimal digits of the value are accumulated in an int64, which wraps around, and
  every other character is skipped; the default is returned unless the result is
  positive. The loop ranges over the bytes of the value, which selects the same digits as
  ranging over its runes, no byte of a longer rune being an ASCII digit. \<^verbatim>\<open>main\<close> passes
  \<^verbatim>\<open>getEnvInt64("MAX_RESPONSE_SIZE", 10*1024*1024)\<close> to \<^verbatim>\<open>NewFetcher\<close> as the maximum
  response size.
\<close>

definition getEnvInt64 :: "string \<Rightarrow> 64 word \<Rightarrow> 64 word" where
  "getEnvInt64 val defaultValue =
     (if val \<noteq> [] then
        (let i = fold (\<lambda>c i. if 48 \<le> (of_char c :: nat) \<and> (of_char c :: nat) \<le> 57
                              then i * 10 + (of_char c - 48) else i) val 0
         in if 0 < sint i then i else defaultValue)
      else defaultValue)"

definition main_maxResponseSize :: "string \<Rightarrow> int" where
  "main_maxResponseSize val = sint (getEnvInt64 val (10 * 1024 * 1024))"

section \<open>A test environment\<close>

text \<open>
  Concrete library functions, an upstream server and a store, at which the theorems below
  are instantiated. \<open>test_Parse\<close> is \<^verbatim>\<open>url.Parse\<close> on the inputs of the validator's test
  table (scheme and host as Go computes them); the inputs outside the table are not
  needed and are answered with an error. The digest and the codec are stand-ins: the
  digest is the identity, and the codec separates the content type from the data by a
  zero byte.
\<close>

definition test_Parse :: "string \<Rightarrow> error + URL" where
  "test_Parse rawURL =
     (case map_of
        [(''https://example.com'', \<lparr>Scheme = ''https'', Host = ''example.com''\<rparr>),
         (''http://example.com'', \<lparr>Scheme = ''http'', Host = ''example.com''\<rparr>),
         (''ftp://host'', \<lparr>Scheme = ''ftp'', Host = ''host''\<rparr>),
         (''javascript:alert(1)'', \<lparr>Scheme = ''javascript'', Host = []\<rparr>),
         (''data:text/html,<h1>test</h1>'', \<lparr>Scheme = ''data'', Host = []\<rparr>),
         (''example.com'', \<lparr>Scheme = [], Host = []\<rparr>),
         (''/relative/path'', \<lparr>Scheme = [], Host = []\<rparr>)] rawURL of
        Some u \<Rightarrow> Inr u
      | None \<Rightarrow> Inl (LibError ''parse error''))"

definition test_Marshal :: "CachedResponse \<Rightarrow> error + string" where
  "test_Marshal r = Inr (ContentType r @ [CHR 0x00] @ Data r)"

definition test_Unmarshal :: "string \<Rightarrow> error + CachedResponse" where
  "test_Unmarshal v =
     Inr \<lparr>Data = drop 1 (dropWhile (\<lambda>c. c \<noteq> CHR 0x00) v),
          ContentType = takeWhile (\<lambda>c. c \<noteq> CHR 0x00) v\<rparr>"

definition test_lib :: stdlib where
  "test_lib =
     \<lparr>url_Parse = test_Parse,
      http_NewRequest = (\<lambda>m u. Inr \<lparr>Method = m, RawURL = u, Header = Map.empty\<rparr>),
      sha256_Sum256 = (\<lambda>u. u),
      json_Marshal = test_Marshal,
      json_Unmarshal = test_Unmarshal\<rparr>"

text \<open>An upstream server that declares a Content-Length of \<open>n\<close> and answers \<open>hello\<close>.\<close>

definition test_server :: "int \<Rightarrow> Request \<Rightarrow> error + Response" where
  "test_server n =
     (\<lambda>req. Inr \<lparr>StatusCode = 200, ContentLength = n,
                 RespHeader = [''Content-Type'' \<mapsto> ''text/plain''],
                 Body = Inr ''hello''\<rparr>)"

text \<open>An empty cache with a time-to-live of one hour, and a device error.\<close>

definition test_cache :: BadgerCache where
  "test_cache = \<lparr>db = \<lparr>entries = Map.empty\<rparr>, ttl = 3600\<rparr>"

definition disk_error :: error where
  "disk_error = LibError ''input/output error''"

section \<open>Properties of the admission limiter\<close>

lemma go_rem_small: "0 \<le> n \<Longrightarrow> n < 10 \<Longrightarrow> go_rem n 10 = n"
  by (cases "n = 0") (simp_all add: go_rem_def sgn_if)

text \<open>Below ten tokens the header is the decimal representation of the integer part.\<close>

lemma formatTokens_digit:
  assumes "0 \<le> t" and "t < 10"
  shows "formatTokens t = decimal (nat \<lfloor>t\<rfloor>)"
proof -
  define n where "n = \<lfloor>t\<rfloor>"
  from assms have f: "0 \<le> n" "n < 10"
    unfolding n_def by (simp_all add: floor_less_iff)
  have "go_int t = n" using assms by (simp add: go_int_def n_def)
  then have r: "go_rem (go_int t) 10 = n"
    using f by (simp add: go_rem_small)
  have "nat n < 10"
    using f by simp
  then have d: "decimal (nat n) = [char_of (48 + nat n)]"
    by (simp add: decimal.simps [of "nat n"])
  have "char_of (48 + nat n) = char_of ((48::int) + n)"
    using f by (metis char_of_nat int_nat_eq of_nat_add of_nat_numeral)
  with d r show ?thesis
    using assms
    by (simp add: formatTokens_def rune_string_def flip: n_def)
qed

lemma decimal_199: "decimal 199 = ''199''"
  by code_simp

lemma formatTokens_199: "formatTokens 199 = ''9''"
  by (simp add: formatTokens_def rune_string_def go_rem_def go_int_def char_of_def)

text \<open>The first request of a client under the default configuration gets the header \<open>9\<close>.\<close>

lemma Middleware_first_request:
  "fst (Middleware (NewIPRateLimiter 100 200) 0 ''192.168.1.1'') = Admitted ''9''"
  by (simp add: formatTokens_def rune_string_def go_rem_def go_int_def char_of_def
      Middleware_def Allow_def getLimiter_def NewIPRateLimiter_def
      NewLimiter_def Limiter_Allow_def Limiter_Tokens_def advance_def Let_def)

text \<open>
  C1. The header value is claimed to be the decimal representation of the integer part of
  the remaining-token count. \<open>formatTokens\<close> writes only the last decimal digit: for 199
  tokens, which the first admitted request of a client leaves under the default burst of
  200, it returns \<open>9\<close>, where the representation of 199 is \<open>199\<close>.
\<close>

theorem formatTokens_last_digit_only:
  "formatTokens 199 = ''9'' \<and> decimal (nat \<lfloor>199::real\<rfloor>) = ''199''
   \<and> formatTokens 199 \<noteq> decimal (nat \<lfloor>199::real\<rfloor>)"
  using decimal_199 formatTokens_199 by simp

lemma Allow_existing:
  "limiters rl ip = Some bkt \<Longrightarrow>
   Allow rl now ip =
     (fst (Limiter_Allow now bkt), rl\<lparr>limiters := (limiters rl)(ip \<mapsto> snd (Limiter_Allow now bkt))\<rparr>)"
  by (simp add: Allow_def getLimiter_def split_beta Let_def)

lemma Allow_fresh:
  "limiters rl ip = None \<Longrightarrow>
   Allow rl now ip =
     Allow (rl\<lparr>limiters := (limiters rl)(ip \<mapsto> NewLimiter (rate rl) (burst rl))\<rparr>) now ip"
  by (simp add: Allow_def getLimiter_def split_beta Let_def)

lemma Allow_frame_limiters: "a \<noteq> b \<Longrightarrow> limiters (snd (Allow rl now a)) b = limiters rl b"
  by (simp add: Allow_def getLimiter_def split_beta Let_def split: option.splits)

lemma Allow_config: "rate (snd (Allow rl now a)) = rate rl \<and> burst (snd (Allow rl now a)) = burst rl"
  by (simp add: Allow_def getLimiter_def split_beta Let_def split: option.splits)

lemma Allow_answer_depends:
  "limiters rl1 b = limiters rl2 b \<Longrightarrow> rate rl1 = rate rl2 \<Longrightarrow> burst rl1 = burst rl2 \<Longrightarrow>
   fst (Allow rl1 now b) = fst (Allow rl2 now b)
   \<and> limiters (snd (Allow rl1 now b)) b = limiters (snd (Allow rl2 now b)) b"
  by (simp add: Allow_def getLimiter_def split_beta Let_def split: option.splits)

text \<open>
  C8. Distinct identities never share consumed tokens: a call \<open>Allow a\<close> leaves the
  registry entry of every other identity \<open>b\<close> as it was (the bucket, or its absence), and
  the next \<open>Allow b\<close> gets the answer and leaves the bucket it would have without the
  call for \<open>a\<close>.
\<close>

theorem Allow_independent:
  assumes "a \<noteq> b"
  shows "limiters (snd (Allow rl now a)) b = limiters rl b
    \<and> fst (Allow (snd (Allow rl now a)) now' b) = fst (Allow rl now' b)
    \<and> limiters (snd (Allow (snd (Allow rl now a)) now' b)) b = limiters (snd (Allow rl now' b)) b"
  using assms Allow_frame_limiters [of a b rl now] Allow_config [of rl now a]
    Allow_answer_depends [of "snd (Allow rl now a)" b rl now']
  by simp

theorem Allow_independent_witness:
  "''192.168.1.1'' \<noteq> ''192.168.1.2''
   \<and> limiters (snd (Allow (NewIPRateLimiter 1 2) 0 ''192.168.1.1'')) ''192.168.1.2''
       = limiters (NewIPRateLimiter 1 2) ''192.168.1.2''
   \<and> fst (Allow (snd (Allow (NewIPRateLimiter 1 2) 0 ''192.168.1.1'')) 0 ''192.168.1.2'')
       = fst (Allow (NewIPRateLimiter 1 2) 0 ''192.168.1.2'')
   \<and> fst (Allow (NewIPRateLimiter 1 2) 0 ''192.168.1.2'')"
proof -
  have h: "''192.168.1.1'' \<noteq> ''192.168.1.2''" by simp
  have a: "fst (Allow (NewIPRateLimiter 1 2) 0 ''192.168.1.2'')"
    by (simp add: NewIPRateLimiter_def Allow_def getLimiter_def NewLimiter_def
        Limiter_Allow_def advance_def Let_def)
  from Allow_independent [OF h, of "NewIPRateLimiter 1 2" 0 0] h a show ?thesis
    by simp
qed

lemma Allow_times_append:
  "Allow_times rl ip (xs @ ys) =
     (let (a, rl1) = Allow_times rl ip xs; (b, rl2) = Allow_times rl1 ip ys in (a @ b, rl2))"
  by (induction xs arbitrary: rl) (simp_all add: split_beta)

lemma Limiter_Allow_burst:
  "n < B \<Longrightarrow> Limiter_Allow 0 (bucket_at B R (Suc n)) = (True, bucket_at B R n)"
  by (simp add: Limiter_Allow_def advance_def bucket_at_def)

lemma Limiter_Allow_empty: "Limiter_Allow 0 (bucket_at B R 0) = (False, bucket_at B R 0)"
  by (simp add: Limiter_Allow_def advance_def bucket_at_def)

lemma Limiter_Allow_refilled:
  "0 < R \<Longrightarrow> 0 < B \<Longrightarrow> fst (Limiter_Allow (1 / R) (bucket_at B R 0))"
  by (simp add: Limiter_Allow_def advance_def bucket_at_def)

lemma burst_run:
  "limiters rl ip = Some (bucket_at B R n) \<Longrightarrow> n \<le> B \<Longrightarrow>
   fst (Allow_times rl ip (replicate n 0)) = replicate n True
   \<and> limiters (snd (Allow_times rl ip (replicate n 0))) ip = Some (bucket_at B R 0)"
proof (induction n arbitrary: rl)
  case 0
  then show ?case by simp
next
  case (Suc n)
  let ?rl1 = "rl\<lparr>limiters := (limiters rl)(ip \<mapsto> bucket_at B R n)\<rparr>"
  have a: "Allow rl 0 ip = (True, ?rl1)"
    using Suc.prems by (simp add: Allow_existing Limiter_Allow_burst)
  have "limiters ?rl1 ip = Some (bucket_at B R n)" by simp
  from Suc.IH [OF this] Suc.prems a show ?case
    by (simp add: split_beta)
qed


lemma Allow_times_fresh:
  "limiters rl ip = None \<Longrightarrow> ts \<noteq> [] \<Longrightarrow>
   Allow_times rl ip ts =
     Allow_times (rl\<lparr>limiters := (limiters rl)(ip \<mapsto> NewLimiter (rate rl) (burst rl))\<rparr>) ip ts"
  by (cases ts) (simp_all add: Allow_fresh [of rl ip])

lemma burst_then:
  assumes "limiters rl ip = Some (bucket_at B R B)"
  shows "fst (Allow_times rl ip (replicate B 0 @ [t]))
       = replicate B True @ [fst (Limiter_Allow t (bucket_at B R 0))]"
proof -
  let ?rl1 = "snd (Allow_times rl ip (replicate B 0))"
  from burst_run [OF assms] have
    r: "fst (Allow_times rl ip (replicate B 0)) = replicate B True"
    and l: "limiters ?rl1 ip = Some (bucket_at B R 0)"
    by simp_all
  have "fst (Allow_times ?rl1 ip [t]) = [fst (Limiter_Allow t (bucket_at B R 0))]"
    by (simp add: Allow_existing [OF l])
  with r show ?thesis
    by (simp add: Allow_times_append split_beta)
qed

lemma fresh_then:
  assumes "limiters rl ip = None" and "rate rl = R" and "burst rl = int B"
  shows "fst (Allow_times rl ip (replicate B 0 @ [t]))
       = replicate B True @ [fst (Limiter_Allow t (bucket_at B R 0))]"
proof -
  let ?rl0 = "rl\<lparr>limiters := (limiters rl)(ip \<mapsto> NewLimiter (rate rl) (burst rl))\<rparr>"
  have "NewLimiter (rate rl) (burst rl) = bucket_at B R B"
    using assms by (simp add: NewLimiter_def bucket_at_def)
  then have "limiters ?rl0 ip = Some (bucket_at B R B)"
    by simp
  from burst_then [OF this] show ?thesis
    using Allow_times_fresh [OF assms(1), of "replicate B 0 @ [t]"] by simp
qed

text \<open>
  C3. For an identity with no bucket yet, under burst \<open>B\<close> and rate \<open>R\<close>: of \<open>B + 1\<close> calls
  of \<open>Allow\<close> at time 0 exactly the first \<open>B\<close> are admitted and the last is denied; and
  after \<open>B\<close> calls at time 0, a call at time \<open>1 / R\<close> is admitted (for a positive rate and
  a burst of at least one, without which nothing is ever admitted).
\<close>

theorem fresh_bucket_burst_then_refill:
  assumes "limiters rl ip = None" and "rate rl = R" and "burst rl = int B"
  shows "fst (Allow_times rl ip (replicate B 0 @ [0])) = replicate B True @ [False]
    \<and> (0 < R \<and> 0 < B \<longrightarrow>
         fst (Allow_times rl ip (replicate B 0 @ [1 / R])) = replicate B True @ [True])"
  using fresh_then [OF assms] Limiter_Allow_empty [of B R] Limiter_Allow_refilled [of R B]
  by simp

theorem fresh_bucket_burst_then_refill_witness:
  "limiters (NewIPRateLimiter 10 1) ''192.168.1.1'' = None
   \<and> (0::real) < 10 \<and> (0::nat) < 1
   \<and> fst (Allow_times (NewIPRateLimiter 10 1) ''192.168.1.1'' [0, 0]) = [True, False]
   \<and> fst (Allow_times (NewIPRateLimiter 10 1) ''192.168.1.1'' [0, 1 / 10]) = [True, True]"
proof -
  have h: "limiters (NewIPRateLimiter 10 1) ''192.168.1.1'' = None"
    "rate (NewIPRateLimiter 10 1) = 10" "burst (NewIPRateLimiter 10 1) = int 1"
    by (simp_all add: NewIPRateLimiter_def)
  from fresh_bucket_burst_then_refill [OF h] h(1) show ?thesis
    by simp
qed

section \<open>Properties of the validator and the fetcher\<close>

lemma ValidateURL_None_iff:
  "(ValidateURL lib url = None) =
     (url \<noteq> [] \<and> (\<exists>p. url_Parse lib url = Inr p
        \<and> (Scheme p = ''http'' \<or> Scheme p = ''https'') \<and> Host p \<noteq> []))"
  by (auto simp: ValidateURL_def split: sum.splits)

lemma ValidateURL_Scheme_iff:
  "(ValidateURL lib url = Some ErrInvalidScheme) =
     (url \<noteq> [] \<and> (\<exists>p. url_Parse lib url = Inr p
        \<and> Scheme p \<noteq> ''http'' \<and> Scheme p \<noteq> ''https''))"
  by (auto simp: ValidateURL_def split: sum.splits)

lemma ValidateURL_URL_iff:
  "(\<exists>e. ValidateURL lib url = Some e \<and> errors_Is e ErrInvalidURL) =
     (url = [] \<or> (\<exists>err. url_Parse lib url = Inl err)
      \<or> (\<exists>p. url_Parse lib url = Inr p
            \<and> (Scheme p = ''http'' \<or> Scheme p = ''https'') \<and> Host p = []))"
  by (auto simp: ValidateURL_def split: sum.splits)

text \<open>
  C2. \<open>ValidateURL\<close> returns nil exactly when the URL is not empty, \<^verbatim>\<open>url.Parse\<close> accepts it,
  the parsed scheme is \<open>http\<close> or \<open>https\<close> and the parsed host is not empty. It returns
  \<open>ErrInvalidScheme\<close> exactly for a non-empty URL that parses with another scheme, whatever
  its host, and an error that is \<open>ErrInvalidURL\<close> exactly in the other failures: the empty
  URL, a parse error, an empty host under an allowed scheme. With the results of
  \<^verbatim>\<open>url.Parse\<close> on the inputs that the claim lists, the empty string, \<open>ftp://host\<close>,
  \<open>javascript:alert(1)\<close>, a \<open>data:\<close> URL, \<open>example.com\<close> and \<open>/relative/path\<close> are rejected
  and \<open>http://example.com\<close> and \<open>https://example.com\<close> are accepted.
\<close>

theorem ValidateURL_spec:
  assumes "url_Parse lib ''ftp://host'' = Inr \<lparr>Scheme = ''ftp'', Host = ''host''\<rparr>"
    and "url_Parse lib ''javascript:alert(1)'' = Inr \<lparr>Scheme = ''javascript'', Host = []\<rparr>"
    and "url_Parse lib ''data:text/html,<h1>test</h1>'' = Inr \<lparr>Scheme = ''data'', Host = []\<rparr>"
    and "url_Parse lib ''example.com'' = Inr \<lparr>Scheme = [], Host = []\<rparr>"
    and "url_Parse lib ''/relative/path'' = Inr \<lparr>Scheme = [], Host = []\<rparr>"
    and "url_Parse lib ''http://example.com'' = Inr \<lparr>Scheme = ''http'', Host = ''example.com''\<rparr>"
    and "url_Parse lib ''https://example.com'' = Inr \<lparr>Scheme = ''https'', Host = ''example.com''\<rparr>"
  shows "(ValidateURL lib url = None) =
           (url \<noteq> [] \<and> (\<exists>p. url_Parse lib url = Inr p
              \<and> (Scheme p = ''http'' \<or> Scheme p = ''https'') \<and> Host p \<noteq> []))
    \<and> (ValidateURL lib url = Some ErrInvalidScheme) =
           (url \<noteq> [] \<and> (\<exists>p. url_Parse lib url = Inr p
              \<and> Scheme p \<noteq> ''http'' \<and> Scheme p \<noteq> ''https''))
    \<and> (\<exists>e. ValidateURL lib url = Some e \<and> errors_Is e ErrInvalidURL) =
           (url = [] \<or> (\<exists>err. url_Parse lib url = Inl err)
            \<or> (\<exists>p. url_Parse lib url = Inr p
                  \<and> (Scheme p = ''http'' \<or> Scheme p = ''https'') \<and> Host p = []))
    \<and> ValidateURL lib [] = Some ErrInvalidURL
    \<and> ValidateURL lib ''ftp://host'' = Some ErrInvalidScheme
    \<and> ValidateURL lib ''javascript:alert(1)'' = Some ErrInvalidScheme
    \<and> ValidateURL lib ''data:text/html,<h1>test</h1>'' = Some ErrInvalidScheme
    \<and> ValidateURL lib ''example.com'' = Some ErrInvalidScheme
    \<and> ValidateURL lib ''/relative/path'' = Some ErrInvalidScheme
    \<and> ValidateURL lib ''http://example.com'' = None
    \<and> ValidateURL lib ''https://example.com'' = None"
proof -
  have "ValidateURL lib [] = Some ErrInvalidURL"
    by (simp add: ValidateURL_def)
  moreover have "ValidateURL lib ''ftp://host'' = Some ErrInvalidScheme"
    using assms(1) by (simp add: ValidateURL_def)
  moreover have "ValidateURL lib ''javascript:alert(1)'' = Some ErrInvalidScheme"
    using assms(2) by (simp add: ValidateURL_def)
  moreover have "ValidateURL lib ''data:text/html,<h1>test</h1>'' = Some ErrInvalidScheme"
    using assms(3) by (simp add: ValidateURL_def)
  moreover have "ValidateURL lib ''example.com'' = Some ErrInvalidScheme"
    using assms(4) by (simp add: ValidateURL_def)
  moreover have "ValidateURL lib ''/relative/path'' = Some ErrInvalidScheme"
    using assms(5) by (simp add: ValidateURL_def)
  moreover have "ValidateURL lib ''http://example.com'' = None"
    using assms(6) by (simp add: ValidateURL_def)
  moreover have "ValidateURL lib ''https://example.com'' = None"
    using assms(7) by (simp add: ValidateURL_def)
  ultimately show ?thesis
    using ValidateURL_None_iff [of lib url] ValidateURL_Scheme_iff [of lib url]
      ValidateURL_URL_iff [of lib url]
    by blast
qed

theorem ValidateURL_spec_witness:
  "ValidateURL test_lib [] = Some ErrInvalidURL
   \<and> ValidateURL test_lib ''ftp://host'' = Some ErrInvalidScheme
   \<and> ValidateURL test_lib ''javascript:alert(1)'' = Some ErrInvalidScheme
   \<and> ValidateURL test_lib ''data:text/html,<h1>test</h1>'' = Some ErrInvalidScheme
   \<and> ValidateURL test_lib ''example.com'' = Some ErrInvalidScheme
   \<and> ValidateURL test_lib ''/relative/path'' = Some ErrInvalidScheme
   \<and> ValidateURL test_lib ''http://example.com'' = None
   \<and> ValidateURL test_lib ''https://example.com'' = None"
proof -
  have h: "url_Parse test_lib ''ftp://host'' = Inr \<lparr>Scheme = ''ftp'', Host = ''host''\<rparr>"
    "url_Parse test_lib ''javascript:alert(1)'' = Inr \<lparr>Scheme = ''javascript'', Host = []\<rparr>"
    "url_Parse test_lib ''data:text/html,<h1>test</h1>'' = Inr \<lparr>Scheme = ''data'', Host = []\<rparr>"
    "url_Parse test_lib ''example.com'' = Inr \<lparr>Scheme = [], Host = []\<rparr>"
    "url_Parse test_lib ''/relative/path'' = Inr \<lparr>Scheme = [], Host = []\<rparr>"
    "url_Parse test_lib ''http://example.com'' = Inr \<lparr>Scheme = ''http'', Host = ''example.com''\<rparr>"
    "url_Parse test_lib ''https://example.com''
       = Inr \<lparr>Scheme = ''https'', Host = ''example.com''\<rparr>"
    by (simp_all add: test_lib_def test_Parse_def)
  from ValidateURL_spec [OF h, of "''http://example.com''"] show ?thesis
    by blast
qed

lemma Fetch_reaches_check:
  assumes "ValidateURL lib rawURL = None"
    and "http_NewRequest lib ''GET'' rawURL = Inr req0"
    and "client_Do f (req0\<lparr>Header := (Header req0)(''User-Agent'' \<mapsto> ''ProxyHarold/1.0'',
                                                   ''Accept'' \<mapsto> ''*/*'')\<rparr>) = Inr resp"
  shows "Fetch lib f rawURL =
     (if ContentLength resp > maxSize f
      then (Inl (Errorf [] ErrResponseTooBig
                   ('': '' @ format_d (ContentLength resp) @ '' bytes (max ''
                     @ format_d (maxSize f) @ '')'')),
            [ClientDo (req0\<lparr>Header := (Header req0)(''User-Agent'' \<mapsto> ''ProxyHarold/1.0'',
                                                     ''Accept'' \<mapsto> ''*/*'')\<rparr>), BodyClose])
      else (Inr resp,
            [ClientDo (req0\<lparr>Header := (Header req0)(''User-Agent'' \<mapsto> ''ProxyHarold/1.0'',
                                                     ''Accept'' \<mapsto> ''*/*'')\<rparr>)]))"
  using assms by (simp add: Fetch_def Let_def)

lemma Fetch_never_reads: "BodyReadAll \<notin> set (snd (Fetch lib f rawURL))"
  by (simp add: Fetch_def Let_def split: option.splits sum.splits)

lemma Fetch_sends:
  assumes "ValidateURL lib rawURL = None"
    and "http_NewRequest lib ''GET'' rawURL = Inr req0"
  shows "ClientDo (req0\<lparr>Header := (Header req0)(''User-Agent'' \<mapsto> ''ProxyHarold/1.0'',
                                                 ''Accept'' \<mapsto> ''*/*'')\<rparr>)
           \<in> set (snd (Fetch lib f rawURL))"
  using assms by (simp add: Fetch_def Let_def split: sum.splits)

lemma ServeHTTP_upstream_Fetch_error:
  "Fetch lib (fetcher h) u = (Inl err, evs) \<Longrightarrow>
   ServeHTTP_upstream lib h s w u = (sendError w (''failed to fetch URL: '' @ Error err) 502, s, evs)"
  by (simp add: ServeHTTP_upstream_def)

text \<open>
  C5. When the upstream response declares a Content-Length above the configured maximum,
  \<open>Fetch\<close> returns an error that is \<open>ErrResponseTooBig\<close>; all it has done is send the request
  and close the body, which it has not read, and the handler answers 502 without reading
  the body either.
\<close>

theorem Fetch_rejects_declared_oversize:
  assumes "ValidateURL lib rawURL = None"
    and "http_NewRequest lib ''GET'' rawURL = Inr req0"
    and "client_Do f (req0\<lparr>Header := (Header req0)(''User-Agent'' \<mapsto> ''ProxyHarold/1.0'',
                                                   ''Accept'' \<mapsto> ''*/*'')\<rparr>) = Inr resp"
    and "maxSize f < ContentLength resp"
    and "fetcher h = f"
  shows "(\<exists>e. fst (Fetch lib f rawURL) = Inl e \<and> errors_Is e ErrResponseTooBig)
    \<and> snd (Fetch lib f rawURL) =
        [ClientDo (req0\<lparr>Header := (Header req0)(''User-Agent'' \<mapsto> ''ProxyHarold/1.0'',
                                                 ''Accept'' \<mapsto> ''*/*'')\<rparr>), BodyClose]
    \<and> BodyReadAll \<notin> set (snd (Fetch lib f rawURL))
    \<and> Code (fst (ServeHTTP_upstream lib h s w rawURL)) = 502
    \<and> BodyReadAll \<notin> set (snd (snd (ServeHTTP_upstream lib h s w rawURL)))"
proof -
  let ?e = "Errorf [] ErrResponseTooBig
              ('': '' @ format_d (ContentLength resp) @ '' bytes (max ''
                @ format_d (maxSize f) @ '')'')"
  let ?evs = "[ClientDo (req0\<lparr>Header := (Header req0)(''User-Agent'' \<mapsto> ''ProxyHarold/1.0'',
                                                 ''Accept'' \<mapsto> ''*/*'')\<rparr>), BodyClose]"
  have F: "Fetch lib f rawURL = (Inl ?e, ?evs)"
    using Fetch_reaches_check [OF assms(1-3)] assms(4) by simp
  then have F': "Fetch lib (fetcher h) rawURL = (Inl ?e, ?evs)"
    using assms(5) by simp
  have "errors_Is ?e ErrResponseTooBig" by simp
  with F show ?thesis
    by (simp add: ServeHTTP_upstream_Fetch_error [OF F'] sendError_def)
qed

theorem Fetch_rejects_declared_oversize_witness:
  "(1024::int) < 999999999
   \<and> Fetch test_lib \<lparr>client_Do = test_server 999999999, maxSize = 1024\<rparr> ''http://example.com''
       = (Inl (Errorf [] ErrResponseTooBig '': 999999999 bytes (max 1024)''),
          [ClientDo \<lparr>Method = ''GET'', RawURL = ''http://example.com'',
                     Header = [''User-Agent'' \<mapsto> ''ProxyHarold/1.0'', ''Accept'' \<mapsto> ''*/*'']\<rparr>,
           BodyClose])
   \<and> Code (fst (ServeHTTP_upstream test_lib
         \<lparr>cache = BadgerCache_Cache test_lib None None 0,
          fetcher = \<lparr>client_Do = test_server 999999999, maxSize = 1024\<rparr>\<rparr>
         test_cache cors_writer ''http://example.com'')) = 502"
proof -
  let ?f = "\<lparr>client_Do = test_server 999999999, maxSize = 1024\<rparr>"
  let ?h = "\<lparr>cache = BadgerCache_Cache test_lib None None 0, fetcher = ?f\<rparr>"
  let ?rq = "\<lparr>Method = ''GET'', RawURL = ''http://example.com'', Header = Map.empty\<rparr>"
  let ?resp = "\<lparr>StatusCode = 200, ContentLength = 999999999,
                RespHeader = [''Content-Type'' \<mapsto> ''text/plain''], Body = Inr ''hello''\<rparr>"
  have h1: "ValidateURL test_lib ''http://example.com'' = None"
    by (simp add: ValidateURL_def test_lib_def test_Parse_def)
  have h2: "http_NewRequest test_lib ''GET'' ''http://example.com'' = Inr ?rq"
    by (simp add: test_lib_def)
  have h3: "client_Do ?f (?rq\<lparr>Header := (Header ?rq)(''User-Agent'' \<mapsto> ''ProxyHarold/1.0'',
                                                       ''Accept'' \<mapsto> ''*/*'')\<rparr>) = Inr ?resp"
    by (simp add: test_server_def)
  have h4: "maxSize ?f < ContentLength ?resp" by simp
  have h5: "fetcher ?h = ?f" by simp
  have d1: "decimal 999999999 = ''999999999''"
    by (simp add: decimal.simps char_of_def bit_Suc_0_iff)
  have d2: "decimal 1024 = ''1024''"
    by (simp add: decimal.simps char_of_def bit_Suc_0_iff)
  have e: "fst (Fetch test_lib ?f ''http://example.com'')
      = Inl (Errorf [] ErrResponseTooBig '': 999999999 bytes (max 1024)'')"
    using Fetch_reaches_check [OF h1 h2 h3] d1 d2 by (simp add: format_d_def)
  from Fetch_rejects_declared_oversize [OF h1 h2 h3 h4 h5, of test_cache cors_writer] e
  show ?thesis
    by (simp add: prod_eq_iff)
qed

lemma getEnvInt64_positive:
  "0 < sint defaultValue \<Longrightarrow> 0 < sint (getEnvInt64 val defaultValue)"
  by (simp add: getEnvInt64_def Let_def)

lemma main_maxResponseSize_positive: "0 < main_maxResponseSize val"
  unfolding main_maxResponseSize_def by (rule getEnvInt64_positive) simp

text \<open>
  C9. The bound is strict: \<open>Fetch\<close> returns the response exactly when its declared
  Content-Length is at most the maximum, so a Content-Length equal to the maximum is
  accepted; and a response without a declared Content-Length, which is \<open>-1\<close>, passes the
  check under every maximum that is not negative, as is every maximum that \<^verbatim>\<open>main\<close>
  configures.
\<close>

theorem Fetch_size_bound_strict:
  assumes "ValidateURL lib rawURL = None"
    and "http_NewRequest lib ''GET'' rawURL = Inr req0"
    and "client_Do f (req0\<lparr>Header := (Header req0)(''User-Agent'' \<mapsto> ''ProxyHarold/1.0'',
                                                   ''Accept'' \<mapsto> ''*/*'')\<rparr>) = Inr resp"
  shows "(fst (Fetch lib f rawURL) = Inr resp) = (ContentLength resp \<le> maxSize f)
    \<and> (ContentLength resp = maxSize f \<longrightarrow> fst (Fetch lib f rawURL) = Inr resp)
    \<and> (ContentLength resp = - 1 \<and> 0 \<le> maxSize f \<longrightarrow> fst (Fetch lib f rawURL) = Inr resp)
    \<and> 0 < main_maxResponseSize val"
  using Fetch_reaches_check [OF assms] main_maxResponseSize_positive [of val] by auto

theorem Fetch_size_bound_strict_witness:
  "fst (Fetch test_lib \<lparr>client_Do = test_server 1024, maxSize = 1024\<rparr> ''http://example.com'')
     = Inr \<lparr>StatusCode = 200, ContentLength = 1024,
            RespHeader = [''Content-Type'' \<mapsto> ''text/plain''], Body = Inr ''hello''\<rparr>
   \<and> (0::int) \<le> main_maxResponseSize ''1024''
   \<and> fst (Fetch test_lib \<lparr>client_Do = test_server (- 1), maxSize = main_maxResponseSize ''1024''\<rparr>
            ''http://example.com'')
     = Inr \<lparr>StatusCode = 200, ContentLength = - 1,
            RespHeader = [''Content-Type'' \<mapsto> ''text/plain''], Body = Inr ''hello''\<rparr>"
proof -
  let ?rq = "\<lparr>Method = ''GET'', RawURL = ''http://example.com'', Header = Map.empty\<rparr>"
  let ?rqh = "?rq\<lparr>Header := (Header ?rq)(''User-Agent'' \<mapsto> ''ProxyHarold/1.0'',
                                               ''Accept'' \<mapsto> ''*/*'')\<rparr>"
  let ?f1 = "\<lparr>client_Do = test_server 1024, maxSize = 1024\<rparr>"
  let ?f2 = "\<lparr>client_Do = test_server (- 1), maxSize = main_maxResponseSize ''1024''\<rparr>"
  have h1: "ValidateURL test_lib ''http://example.com'' = None"
    by (simp add: ValidateURL_def test_lib_def test_Parse_def)
  have h2: "http_NewRequest test_lib ''GET'' ''http://example.com'' = Inr ?rq"
    by (simp add: test_lib_def)
  have a: "client_Do ?f1 ?rqh = test_server 1024 ?rqh" by simp
  have b: "client_Do ?f2 ?rqh = test_server (- 1) ?rqh" by simp
  have m: "main_maxResponseSize ''1024'' = 1024"
    by (simp add: main_maxResponseSize_def getEnvInt64_def)
  from Fetch_size_bound_strict [OF h1 h2 a [unfolded test_server_def]]
       Fetch_size_bound_strict [OF h1 h2 b [unfolded test_server_def]] m
  show ?thesis
    by (simp add: test_server_def)
qed

section \<open>Properties of the orchestrator\<close>

lemma ServeHTTP_not_hit:
  assumes "ReqMethod r \<noteq> ''OPTIONS''" and "QueryURL r \<noteq> []"
    and "ValidateURL lib (QueryURL r) = None"
    and "Cache_Get (cache h) s (QueryURL r) = ((d, ct, found, err), s1)"
    and "\<not> (err = None \<and> found)"
  shows "ServeHTTP lib h s r = ServeHTTP_upstream lib h s1 cors_writer (QueryURL r)"
  using assms by (auto simp add: ServeHTTP_def Let_def)

lemma ServeHTTP_upstream_trace:
  "\<exists>rest. snd (snd (ServeHTTP_upstream lib h s w u)) = snd (Fetch lib (fetcher h) u) @ rest"
  by (cases "Fetch lib (fetcher h) u")
     (simp add: ServeHTTP_upstream_def Let_def split_beta split: sum.splits)

lemma ServeHTTP_upstream_Set:
  assumes "Fetch lib (fetcher h) u = (Inr resp, evs)" and "Body resp = Inr b"
    and "Cache_Set (cache h) s u b
           (if Header_Get (RespHeader resp) ''Content-Type'' = []
            then ''application/octet-stream''
            else Header_Get (RespHeader resp) ''Content-Type'') = (res, s2)"
  shows "ServeHTTP_upstream lib h s w u =
           (w\<lparr>WHeader := (WHeader w)
               (''Content-Type'' \<mapsto>
                  (if Header_Get (RespHeader resp) ''Content-Type'' = []
                   then ''application/octet-stream''
                   else Header_Get (RespHeader resp) ''Content-Type''),
                ''X-Cache'' \<mapsto> ''MISS''),
             Written := Bytes b\<rparr>,
            s2, evs @ [BodyReadAll, BodyClose])"
  using assms by (simp add: ServeHTTP_upstream_def Let_def split_beta)

text \<open>
  C6. A cache error never reaches the client. When the lookup is not a hit, and in
  particular when it returns an error, the handler does exactly what it does on a miss:
  it goes on to \<open>Fetch\<close>, whose network trace opens the trace of the request, with the
  request sent upstream when \<^verbatim>\<open>http.NewRequest\<close> accepts the URL. And when the fetch
  succeeds and the body is read, the response is 200 with the fresh body and
  \<open>X-Cache: MISS\<close> although \<open>Set\<close> returns an error.
\<close>

theorem cache_errors_not_surfaced:
  assumes "ReqMethod r \<noteq> ''OPTIONS''" and "QueryURL r \<noteq> []"
    and "ValidateURL lib (QueryURL r) = None"
    and "Cache_Get (cache h) s (QueryURL r) = ((d, ct, found, err), s1)"
    and "err = Some e \<or> \<not> found"
  shows "ServeHTTP lib h s r = ServeHTTP_upstream lib h s1 cors_writer (QueryURL r)
    \<and> (\<exists>rest. snd (snd (ServeHTTP lib h s r)) = snd (Fetch lib (fetcher h) (QueryURL r)) @ rest)
    \<and> (http_NewRequest lib ''GET'' (QueryURL r) = Inr req0 \<longrightarrow>
         ClientDo (req0\<lparr>Header := (Header req0)(''User-Agent'' \<mapsto> ''ProxyHarold/1.0'',
                                                 ''Accept'' \<mapsto> ''*/*'')\<rparr>)
           \<in> set (snd (snd (ServeHTTP lib h s r))))
    \<and> (Fetch lib (fetcher h) (QueryURL r) = (Inr resp, evs) \<and> Body resp = Inr b
        \<and> Cache_Set (cache h) s1 (QueryURL r) b
             (if Header_Get (RespHeader resp) ''Content-Type'' = []
              then ''application/octet-stream''
              else Header_Get (RespHeader resp) ''Content-Type'') = (Some e', s2)
       \<longrightarrow> ServeHTTP lib h s r =
            (\<lparr>Code = 200,
              WHeader = (WHeader cors_writer)
                (''Content-Type'' \<mapsto>
                   (if Header_Get (RespHeader resp) ''Content-Type'' = []
                    then ''application/octet-stream''
                    else Header_Get (RespHeader resp) ''Content-Type''),
                 ''X-Cache'' \<mapsto> ''MISS''),
              Written = Bytes b\<rparr>,
             s2, evs @ [BodyReadAll, BodyClose]))"
proof -
  have "\<not> (err = None \<and> found)"
    using assms(5) by auto
  from ServeHTTP_not_hit [OF assms(1-4) this]
  have eq: "ServeHTTP lib h s r = ServeHTTP_upstream lib h s1 cors_writer (QueryURL r)" .
  moreover have tr: "\<exists>rest. snd (snd (ServeHTTP lib h s r))
      = snd (Fetch lib (fetcher h) (QueryURL r)) @ rest"
    using ServeHTTP_upstream_trace [of lib h s1 cors_writer "QueryURL r"] eq by simp
  moreover have "ClientDo (req0\<lparr>Header := (Header req0)(''User-Agent'' \<mapsto> ''ProxyHarold/1.0'',
                                                 ''Accept'' \<mapsto> ''*/*'')\<rparr>)
           \<in> set (snd (snd (ServeHTTP lib h s r)))"
    if "http_NewRequest lib ''GET'' (QueryURL r) = Inr req0"
    using Fetch_sends [OF assms(3) that, of "fetcher h"] tr by auto
  moreover have "ServeHTTP lib h s r =
            (\<lparr>Code = 200,
              WHeader = (WHeader cors_writer)
                (''Content-Type'' \<mapsto>
                   (if Header_Get (RespHeader resp) ''Content-Type'' = []
                    then ''application/octet-stream''
                    else Header_Get (RespHeader resp) ''Content-Type''),
                 ''X-Cache'' \<mapsto> ''MISS''),
              Written = Bytes b\<rparr>,
             s2, evs @ [BodyReadAll, BodyClose])"
    if "Fetch lib (fetcher h) (QueryURL r) = (Inr resp, evs)" and "Body resp = Inr b"
      and "Cache_Set (cache h) s1 (QueryURL r) b
             (if Header_Get (RespHeader resp) ''Content-Type'' = []
              then ''application/octet-stream''
              else Header_Get (RespHeader resp) ''Content-Type'') = (Some e', s2)"
    using ServeHTTP_upstream_Set [OF that, of cors_writer] eq
    by (simp add: cors_writer_def)
  ultimately show ?thesis by blast
qed

theorem cache_errors_not_surfaced_witness:
  "ServeHTTP test_lib
     \<lparr>cache = BadgerCache_Cache test_lib (Some disk_error) (Some disk_error) 0,
      fetcher = \<lparr>client_Do = test_server 5, maxSize = 1024\<rparr>\<rparr>
     test_cache \<lparr>ReqMethod = ''GET'', QueryURL = ''http://example.com''\<rparr>
   = (\<lparr>Code = 200,
       WHeader = (WHeader cors_writer)
         (''Content-Type'' \<mapsto> ''text/plain'', ''X-Cache'' \<mapsto> ''MISS''),
       Written = Bytes ''hello''\<rparr>,
      test_cache,
      [ClientDo \<lparr>Method = ''GET'', RawURL = ''http://example.com'',
                 Header = [''User-Agent'' \<mapsto> ''ProxyHarold/1.0'', ''Accept'' \<mapsto> ''*/*'']\<rparr>,
       BodyReadAll, BodyClose])"
proof -
  let ?f = "\<lparr>client_Do = test_server 5, maxSize = 1024\<rparr>"
  let ?h = "\<lparr>cache = BadgerCache_Cache test_lib (Some disk_error) (Some disk_error) 0,
             fetcher = ?f\<rparr>"
  let ?r = "\<lparr>ReqMethod = ''GET'', QueryURL = ''http://example.com''\<rparr>"
  let ?rq = "\<lparr>Method = ''GET'', RawURL = ''http://example.com'', Header = Map.empty\<rparr>"
  let ?resp = "\<lparr>StatusCode = 200, ContentLength = 5,
                RespHeader = [''Content-Type'' \<mapsto> ''text/plain''], Body = Inr ''hello''\<rparr>"
  let ?evs = "[ClientDo (?rq\<lparr>Header := (Header ?rq)(''User-Agent'' \<mapsto> ''ProxyHarold/1.0'',
                                                     ''Accept'' \<mapsto> ''*/*'')\<rparr>)]"
  have h1: "ReqMethod ?r \<noteq> ''OPTIONS''" by simp
  have h2: "QueryURL ?r \<noteq> []" by simp
  have v: "ValidateURL test_lib ''http://example.com'' = None"
    by (simp add: ValidateURL_def test_lib_def test_Parse_def)
  then have h3: "ValidateURL test_lib (QueryURL ?r) = None" by simp
  have h4: "Cache_Get (cache ?h) test_cache (QueryURL ?r)
      = (([], [], False, Some disk_error), test_cache)"
    by (simp add: BadgerCache_Cache_def BadgerCache_Get_def db_Get_def disk_error_def Let_def)
  have h5: "Some disk_error = Some disk_error \<or> \<not> False" by simp
  have n: "http_NewRequest test_lib ''GET'' ''http://example.com'' = Inr ?rq"
    by (simp add: test_lib_def)
  have c: "client_Do ?f (?rq\<lparr>Header := (Header ?rq)(''User-Agent'' \<mapsto> ''ProxyHarold/1.0'',
                                                     ''Accept'' \<mapsto> ''*/*'')\<rparr>) = Inr ?resp"
    by (simp add: test_server_def)
  have F: "Fetch test_lib (fetcher ?h) (QueryURL ?r) = (Inr ?resp, ?evs)"
    using Fetch_reaches_check [OF v n c] by simp
  have B: "Body ?resp = Inr ''hello''" by simp
  have S: "Cache_Set (cache ?h) test_cache (QueryURL ?r) ''hello''
             (if Header_Get (RespHeader ?resp) ''Content-Type'' = []
              then ''application/octet-stream''
              else Header_Get (RespHeader ?resp) ''Content-Type'') = (Some disk_error, test_cache)"
    by (simp add: BadgerCache_Cache_def BadgerCache_Set_def db_SetEntry_def test_lib_def
        test_Marshal_def Header_Get_def Let_def)
  note T = cache_errors_not_surfaced [OF h1 h2 h3 h4 h5, where resp = ?resp and evs = ?evs
      and b = "''hello''" and e' = disk_error and ?s2.0 = test_cache]
  from T [THEN conjunct2, THEN conjunct2, THEN conjunct2, THEN mp,
      OF conjI [OF F conjI [OF B S]]]
  show ?thesis
    by (simp add: Header_Get_def)
qed

section \<open>Properties of the response cache\<close>


lemma db_Get_expired_after_SetEntry:
  "now + t \<le> now' \<Longrightarrow>
   db_Get None (snd (db_SetEntry None d now key val t)) now' key = Inl ErrKeyNotFound"
  by (simp add: db_Get_def db_SetEntry_def)


lemma BadgerCache_Set_ok:
  "json_Marshal lib \<lparr>Data = data, ContentType = ct\<rparr> = Inr val \<Longrightarrow>
   BadgerCache_Set lib None c now url data ct =
     (None, c\<lparr>db := snd (db_SetEntry None (db c) now (GenerateCacheKey lib url) val (ttl c))\<rparr>)"
  by (simp add: BadgerCache_Set_def db_SetEntry_def Let_def)

lemma BadgerCache_Set_stored:
  "fst (BadgerCache_Set lib None c now url data ct) = None \<Longrightarrow>
   \<exists>val. json_Marshal lib \<lparr>Data = data, ContentType = ct\<rparr> = Inr val"
  by (simp add: BadgerCache_Set_def Let_def split: sum.splits)



lemma BadgerCache_Get_error:
  "db_Get io (db c) now (GenerateCacheKey lib url) = Inl err \<Longrightarrow>
   BadgerCache_Get lib io c now url =
     (if err = ErrKeyNotFound then ([], [], False, None) else ([], [], False, Some err))"
  by (simp add: BadgerCache_Get_def Let_def)



text \<open>
  C7. An entry stored by \<open>Set\<close> at time \<open>now\<close> under the time-to-live \<open>ttl\<close> is a miss for
  every \<open>Get\<close> at a time later than \<open>now + ttl\<close>: the entry is still in the store, nothing
  has reclaimed it, and the lookup returns \<open>found = false\<close>, without an error when the
  lookup meets no I/O error.
\<close>

theorem expired_entry_is_miss:
  assumes "fst (BadgerCache_Set lib None c now url body ct) = None"
    and "now + ttl c < now'"
  shows "BadgerCache_Get lib None (snd (BadgerCache_Set lib None c now url body ct)) now' url
        = ([], [], False, None)
    \<and> \<not> fst (snd (snd
          (BadgerCache_Get lib io (snd (BadgerCache_Set lib None c now url body ct)) now' url)))"
proof -
  from BadgerCache_Set_stored [OF assms(1)] obtain val
    where m: "json_Marshal lib \<lparr>Data = body, ContentType = ct\<rparr> = Inr val" ..
  let ?c1 = "snd (BadgerCache_Set lib None c now url body ct)"
  have g: "db_Get None (db ?c1) now' (GenerateCacheKey lib url) = Inl ErrKeyNotFound"
    using assms(2) by (simp add: BadgerCache_Set_ok [OF m] db_Get_expired_after_SetEntry)
  have "\<exists>err. db_Get io (db ?c1) now' (GenerateCacheKey lib url) = Inl err"
  proof (cases io)
    case None
    with g show ?thesis by simp
  next
    case (Some e)
    then show ?thesis by (simp add: db_Get_def)
  qed
  then obtain err where "db_Get io (db ?c1) now' (GenerateCacheKey lib url) = Inl err" ..
  from BadgerCache_Get_error [OF this] BadgerCache_Get_error [OF g]
  show ?thesis by simp
qed

theorem expired_entry_is_miss_witness:
  "fst (BadgerCache_Set test_lib None test_cache 0 ''https://example.com'' ''data'' ''text/plain'')
     = None
   \<and> 0 + ttl test_cache < 3601
   \<and> entries (db (snd (BadgerCache_Set test_lib None test_cache 0 ''https://example.com''
                          ''data'' ''text/plain'')))
        (GenerateCacheKey test_lib ''https://example.com'')
       = Some (''text/plain'' @ [CHR 0x00] @ ''data'', 3600)
   \<and> BadgerCache_Get test_lib None
        (snd (BadgerCache_Set test_lib None test_cache 0 ''https://example.com''
                ''data'' ''text/plain''))
        3601 ''https://example.com''
       = ([], [], False, None)"
proof -
  have s: "fst (BadgerCache_Set test_lib None test_cache 0 ''https://example.com''
                  ''data'' ''text/plain'') = None"
    by (simp add: BadgerCache_Set_def db_SetEntry_def test_lib_def test_Marshal_def Let_def)
  have t: "0 + ttl test_cache < 3601"
    by (simp add: test_cache_def)
  have e: "entries (db (snd (BadgerCache_Set test_lib None test_cache 0 ''https://example.com''
                          ''data'' ''text/plain'')))
        (GenerateCacheKey test_lib ''https://example.com'')
       = Some (''text/plain'' @ [CHR 0x00] @ ''data'', 3600)"
    by (simp add: BadgerCache_Set_def db_SetEntry_def test_lib_def test_Marshal_def Let_def
        test_cache_def)
  from expired_entry_is_miss [OF s t, of None] s t e show ?thesis
    by simp
qed

text \<open>
  C10. A miss is not an error: when the store has no entry for the key of the URL, or
  only an expired one, \<open>Get\<close> returns \<open>(nil, "", false, nil)\<close>; an I/O error other than
  key-not-found is returned as the error.
\<close>

theorem Get_miss_is_not_error:
  "(entries (db c) (GenerateCacheKey lib url) = None
     \<or> (\<exists>val expiresAt. entries (db c) (GenerateCacheKey lib url) = Some (val, expiresAt)
           \<and> expiresAt \<le> now)
    \<longrightarrow> BadgerCache_Get lib None c now url = ([], [], False, None))
   \<and> (err \<noteq> ErrKeyNotFound
    \<longrightarrow> BadgerCache_Get lib (Some err) c now url = ([], [], False, Some err))"
  by (auto simp: BadgerCache_Get_def db_Get_def Let_def)

theorem Get_miss_is_not_error_witness:
  "entries (db test_cache) (GenerateCacheKey test_lib ''https://nonexistent.com'') = None
   \<and> BadgerCache_Get test_lib None test_cache 0 ''https://nonexistent.com''
       = ([], [], False, None)
   \<and> disk_error \<noteq> ErrKeyNotFound
   \<and> BadgerCache_Get test_lib (Some disk_error) test_cache 0 ''https://nonexistent.com''
       = ([], [], False, Some disk_error)"
proof -
  have h: "entries (db test_cache) (GenerateCacheKey test_lib ''https://nonexistent.com'') = None"
    by (simp add: test_cache_def)
  have d: "disk_error \<noteq> ErrKeyNotFound"
    by (simp add: disk_error_def)
  from Get_miss_is_not_error [of test_cache test_lib "''https://nonexistent.com''" 0 disk_error]
    h d
  show ?thesis by simp
qed

end
